theory Spec2Isabelle
  imports Main "HOL-Library.Sublist"
begin

section \<open>Python strings\<close>

text \<open>
  A Python \<^verbatim>\<open>str\<close> is a sequence of Unicode code points, so it is modelled as a list
  of natural numbers. The Chinese literals of \<^verbatim>\<open>iptv.py\<close> are written by their code
  points; ASCII literals go through \<open>ascii\<close>.
\<close>

type_synonym pystr = "nat list"

definition ascii :: "string \<Rightarrow> pystr" where
  "ascii s = map of_char s"

text \<open>\<^verbatim>\<open>s.startswith(kw)\<close>\<close>

fun startswith :: "pystr \<Rightarrow> pystr \<Rightarrow> bool" where
  "startswith s [] = True"
| "startswith [] (k # ks) = False"
| "startswith (c # cs) (k # ks) = (c = k \<and> startswith cs ks)"

text \<open>\<^verbatim>\<open>kw in text\<close>: the substring test of \<^verbatim>\<open>contains_any\<close>.\<close>

fun py_in :: "pystr \<Rightarrow> pystr \<Rightarrow> bool" where
  "py_in kw [] = (kw = [])"
| "py_in kw (c # cs) = (startswith (c # cs) kw \<or> py_in kw cs)"

text \<open>
  \<^verbatim>\<open>text.replace(kw, '')\<close>: the occurrences of \<open>kw\<close> are found scanning from the left,
  without overlap, and deleted. With an empty \<open>kw\<close> Python inserts the (empty)
  replacement between the characters, which changes nothing.
\<close>

fun str_remove :: "pystr \<Rightarrow> pystr \<Rightarrow> pystr" where
  "str_remove kw [] = []"
| "str_remove kw (c # cs) =
     (if kw \<noteq> [] \<and> startswith (c # cs) kw
      then str_remove kw (drop (length kw) (c # cs))
      else c # str_remove kw cs)"

text \<open>
  \<^verbatim>\<open>str.isspace\<close> on one code point, the set \<^verbatim>\<open>str.strip()\<close> removes: the code points
  CPython lists as whitespace.
\<close>

definition isspace :: "nat \<Rightarrow> bool" where
  "isspace c \<longleftrightarrow>
     (0x09 \<le> c \<and> c \<le> 0x0D) \<or> (0x1C \<le> c \<and> c \<le> 0x20) \<or> c = 0x85 \<or> c = 0xA0 \<or>
     c = 0x1680 \<or> (0x2000 \<le> c \<and> c \<le> 0x200A) \<or> c = 0x2028 \<or> c = 0x2029 \<or>
     c = 0x202F \<or> c = 0x205F \<or> c = 0x3000"

text \<open>\<^verbatim>\<open>s.strip()\<close>\<close>

definition strip :: "pystr \<Rightarrow> pystr" where
  "strip s = rev (dropWhile isspace (rev (dropWhile isspace s)))"

section \<open>Configuration of \<^verbatim>\<open>IPTVChannelExtractor.__init__\<close>\<close>

text \<open>
  \<^verbatim>\<open>category_rules\<close> is a dict literal; Python dicts iterate in insertion order, so it is
  an association list in the order of the source (lines 32-41).
\<close>

definition category_rules :: "(pystr \<times> pystr list) list" where
  "category_rules =
    [([0x592E, 0x89C6], [ascii ''CCTV'', ascii ''CETV'', ascii ''CGTN'']),
     ([0x536B, 0x89C6], [[0x536B, 0x89C6]]),
     ([0x5C11, 0x513F], [[0x5C11, 0x513F], [0x52A8, 0x753B], [0x5361, 0x901A]]),
     ([0x7535, 0x5F71],
        [[0x7535, 0x5F71], [0x5F71, 0x9662], [0x9662, 0x7EBF], [0x5927, 0x7247],
         [0x7231, 0x6D6A, 0x6F2B], [0x7231, 0x559C, 0x5267], [0x7231, 0x79D1, 0x5E7B],
         [0x7231, 0x9662, 0x7EBF], [0x7231, 0x5386, 0x53F2], [0x7231, 0x60AC, 0x7591],
         [0x7231, 0x8C0D, 0x6218]]),
     ([0x7535, 0x89C6, 0x5267],
        [[0x5267, 0x573A], [0x7535, 0x89C6, 0x5267], [0x70ED, 0x64AD], [0x70ED, 0x95E8],
         [0x7ECF, 0x5178], [0x90FD, 0x5E02], [0x8C0D, 0x6218],
         [0x90FD, 0x5E02, 0x5267, 0x573A], [0x70ED, 0x95E8, 0x5267, 0x573A],
         [0x7ECF, 0x5178, 0x5267, 0x573A], [0x7231, 0x65C5, 0x884C],
         [0x7CBE, 0x5F69, 0x5F71, 0x89C6]]),
     ([0x56DB, 0x5DDD],
        [ascii ''SCTV'', [0x56DB, 0x5DDD], ascii ''CDTV'', [0x718A, 0x732B],
         [0x5CE8, 0x7709], [0x6210, 0x90FD]])]"

text \<open>The label returned when no rule matches (line 68).\<close>

definition other_category :: pystr where
  "other_category = [0x5176, 0x4ED6]"

text \<open>\<^verbatim>\<open>filter_keywords\<close> (lines 44-47).\<close>

definition filter_keywords :: "pystr list" where
  "filter_keywords =
    [[0x5355, 0x97F3, 0x8F68], [0x753B, 0x4E2D, 0x753B], [0x70ED, 0x95E8],
     [0x76F4, 0x64AD, 0x5BA4], [0x7231], ascii ''92'',
     [0x6D4B, 0x8BD5], [0x5907, 0x7528], [0x4E34, 0x65F6], [0x5E94, 0x6025]]"

text \<open>
  \<^verbatim>\<open>cleanup_keywords\<close> (line 50): U+8D85 U+9AD8 U+6E05 (ultra high definition),
  U+9AD8 U+6E05 (high definition), the hyphen, U+6807 U+6E05 (standard definition).
\<close>

definition cleanup_keywords :: "pystr list" where
  "cleanup_keywords = [[0x8D85, 0x9AD8, 0x6E05], [0x9AD8, 0x6E05], ascii ''-'', [0x6807, 0x6E05]]"

section \<open>The channel normalizer\<close>

text \<open>\<^verbatim>\<open>contains_any(text, keywords)\<close>: \<^verbatim>\<open>any(kw in text for kw in keywords)\<close>.\<close>

primrec contains_any :: "pystr \<Rightarrow> pystr list \<Rightarrow> bool" where
  "contains_any text [] = False"
| "contains_any text (kw # kws) = (py_in kw text \<or> contains_any text kws)"

text \<open>
  \<^verbatim>\<open>categorize(name)\<close>: the loop over \<^verbatim>\<open>category_rules.items()\<close> returns at the first rule
  that matches; the rules still to be visited are the first argument.
\<close>

fun categorize_loop :: "(pystr \<times> pystr list) list \<Rightarrow> pystr \<Rightarrow> pystr" where
  "categorize_loop [] name = other_category"
| "categorize_loop ((cat, kws) # rules) name =
     (if contains_any name kws then cat else categorize_loop rules name)"

definition categorize :: "pystr \<Rightarrow> pystr" where
  "categorize name = categorize_loop category_rules name"

text \<open>
  Lines 115-117 of \<^verbatim>\<open>process_channels\<close>: every cleanup keyword is removed in turn from the
  running name, then the name is stripped.
\<close>

definition cleanup :: "pystr \<Rightarrow> pystr" where
  "cleanup name = strip (foldl (\<lambda>n kw. str_remove kw n) name cleanup_keywords)"

text \<open>The dicts built by \<^verbatim>\<open>extract_channels\<close> and \<^verbatim>\<open>process_channels\<close>.\<close>

record raw_channel =
  chan_id :: pystr
  chan_name :: pystr
  chan_address :: pystr

record processed_channel = raw_channel +
  tag :: pystr
  icon :: pystr

text \<open>\<^verbatim>\<open>icons_map.get(name, "")\<close>\<close>

definition icon_get :: "(pystr \<rightharpoonup> pystr) \<Rightarrow> pystr \<Rightarrow> pystr" where
  "icon_get icons_map name = (case icons_map name of None \<Rightarrow> [] | Some url \<Rightarrow> url)"

definition process_one :: "raw_channel \<Rightarrow> (pystr \<rightharpoonup> pystr) \<Rightarrow> processed_channel" where
  "process_one ch icons_map =
     (let name = cleanup (chan_name ch)
      in \<lparr>chan_id = chan_id ch, chan_name = name, chan_address = chan_address ch,
          tag = categorize name, icon = icon_get icons_map name\<rparr>)"

fun process_channels :: "raw_channel list \<Rightarrow> (pystr \<rightharpoonup> pystr) \<Rightarrow> processed_channel list" where
  "process_channels [] icons_map = []"
| "process_channels (ch # channels) icons_map =
     (if contains_any (chan_name ch) filter_keywords
      then process_channels channels icons_map
      else process_one ch icons_map # process_channels channels icons_map)"

section \<open>The fetcher\<close>

text \<open>
  \<^verbatim>\<open>requests\<close> is outside the repository: \<^verbatim>\<open>session.get(url, timeout=10)\<close> either raises
  or returns a response, of which the code reads the status (through
  \<^verbatim>\<open>raise_for_status\<close>) and the body. Bytes are a list of numbers.
\<close>

type_synonym bytes = "nat list"

datatype request_error = Timeout | ConnectionError | HTTPError nat

record response =
  status_code :: nat
  content :: bytes

text \<open>
  \<^verbatim>\<open>resp.raise_for_status()\<close> raises \<^verbatim>\<open>HTTPError\<close> for a client error (400-499) or a server
  error (500-599) status and returns otherwise.
\<close>

definition raise_for_status :: "response \<Rightarrow> request_error + unit" where
  "raise_for_status resp =
     (if 400 \<le> status_code resp \<and> status_code resp < 600
      then Inl (HTTPError (status_code resp)) else Inr ())"

text \<open>
  A table cell as the code reads it: \<^verbatim>\<open>td.get_text(strip=True)\<close>, and the \<^verbatim>\<open>href\<close> of
  \<^verbatim>\<open>td.find('a', href=True)\<close> (\<open>None\<close> when the cell has no such link). A row is the list
  \<^verbatim>\<open>tr.find_all('td')\<close>.
\<close>

record td =
  td_text :: pystr
  td_href :: "pystr option"

type_synonym tr = "td list"

text \<open>
  What the run reads from outside: the answer of the session to a GET, the rows
  \<^verbatim>\<open>BeautifulSoup(content, 'lxml').find_all('tr')\<close> finds in a body, \<^verbatim>\<open>urllib.parse.urljoin\<close>,
  \<^verbatim>\<open>os.getenv('LAN_ADDRESS')\<close> (\<open>None\<close> when unset), the successive readings of the clock
  by \<^verbatim>\<open>strict_rfc3339.now_to_rfc3339_utcoffset\<close>, and whether the directory and the file of
  an output path can be written. \<^verbatim>\<open>urljoin\<close> raises \<^verbatim>\<open>ValueError\<close> on some links (the link
  \<^verbatim>\<open>//[\<close> is one, an invalid IPv6 address); its result is \<open>None\<close> there. The parser is taken
  to return on every body.
\<close>

record world =
  http_get :: "pystr \<Rightarrow> request_error + response"
  soup_rows :: "bytes \<Rightarrow> tr list"
  urljoin :: "pystr \<Rightarrow> pystr \<Rightarrow> pystr option"
  lan_address :: "pystr option"
  now_rfc3339 :: "nat \<Rightarrow> pystr"
  writable :: "pystr \<Rightarrow> bool"

text \<open>
  \<^verbatim>\<open>fetch(url)\<close>: the body of the \<^verbatim>\<open>try\<close> yields the content or an exception, and the
  \<^verbatim>\<open>except Exception\<close> clause turns every exception into \<^verbatim>\<open>None\<close> (the log line is not
  modelled).
\<close>

definition fetch_try :: "world \<Rightarrow> pystr \<Rightarrow> request_error + bytes" where
  "fetch_try w url =
     (case http_get w url of
        Inl e \<Rightarrow> Inl e
      | Inr resp \<Rightarrow>
          (case raise_for_status resp of
             Inl e \<Rightarrow> Inl e
           | Inr _ \<Rightarrow> Inr (content resp)))"

definition fetch :: "world \<Rightarrow> pystr \<Rightarrow> bytes option" where
  "fetch w url = (case fetch_try w url of Inl e \<Rightarrow> None | Inr body \<Rightarrow> Some body)"

text \<open>
  The exceptions nothing in the program catches: \<^verbatim>\<open>OSError\<close> from \<^verbatim>\<open>mkdir\<close> and \<^verbatim>\<open>open\<close>,
  \<^verbatim>\<open>ValueError\<close> from \<^verbatim>\<open>urljoin\<close>, and \<^verbatim>\<open>UnicodeEncodeError\<close> from writing text that UTF-8
  cannot encode.
\<close>

datatype error = OSError | ValueError | UnicodeEncodeError

section \<open>The table readers\<close>

record icon_record =
  icon_id :: pystr
  icon_name :: pystr
  icon_href :: pystr

text \<open>The loop of \<^verbatim>\<open>load_icons\<close> over the rows (lines 76-87).\<close>

fun icon_rows :: "tr list \<Rightarrow> icon_record list" where
  "icon_rows [] = []"
| "icon_rows (tds # trs) =
     (if length tds < 4 then icon_rows trs
      else (case td_href (tds ! 0) of
              None \<Rightarrow> icon_rows trs
            | Some href \<Rightarrow>
                if href = ascii ''#'' then icon_rows trs
                else \<lparr>icon_id = td_text (tds ! 3), icon_name = td_text (tds ! 2),
                      icon_href = href\<rparr> # icon_rows trs))"

text \<open>\<^verbatim>\<open>if not content\<close> holds for \<^verbatim>\<open>None\<close> and for an empty body.\<close>

definition load_icons :: "world \<Rightarrow> pystr \<Rightarrow> icon_record list" where
  "load_icons w base_url =
     (case fetch w base_url of
        None \<Rightarrow> []
      | Some body \<Rightarrow> if body = [] then [] else icon_rows (soup_rows w body))"

text \<open>The header marker of the channel table, U+5E8F U+53F7 (line 98).\<close>

definition header_marker :: pystr where
  "header_marker = [0x5E8F, 0x53F7]"

text \<open>The loop of \<^verbatim>\<open>extract_channels\<close> over the rows (lines 96-106).\<close>

fun channel_rows :: "tr list \<Rightarrow> raw_channel list" where
  "channel_rows [] = []"
| "channel_rows (tds # trs) =
     (if tds = [] \<or> td_text (tds ! 0) = header_marker then channel_rows trs
      else if length tds < 3 then channel_rows trs
      else \<lparr>chan_id = td_text (tds ! 0), chan_name = td_text (tds ! 1),
            chan_address = td_text (tds ! 2)\<rparr> # channel_rows trs)"

definition extract_channels :: "world \<Rightarrow> pystr \<Rightarrow> raw_channel list" where
  "extract_channels w base_url =
     (case fetch w (base_url @ ascii ''/sctvmulticast.html'') of
        None \<Rightarrow> []
      | Some body \<Rightarrow> if body = [] then [] else channel_rows (soup_rows w body))"

text \<open>
  \<^verbatim>\<open>build_icons_map\<close>: the dict comprehension visits the items in list order and inserts
  each name with its joined URL, a later item replacing an earlier one of the same name.
  The first \<^verbatim>\<open>urljoin\<close> that raises ends the comprehension, and no dict is built. The dict
  under construction is the third argument of the loop.
\<close>

fun build_icons_loop ::
  "world \<Rightarrow> pystr \<Rightarrow> (pystr \<rightharpoonup> pystr) \<Rightarrow> icon_record list \<Rightarrow> error + (pystr \<rightharpoonup> pystr)" where
  "build_icons_loop w base_url m [] = Inr m"
| "build_icons_loop w base_url m (item # items) =
     (case urljoin w base_url (icon_href item) of
        None \<Rightarrow> Inl ValueError
      | Some url \<Rightarrow> build_icons_loop w base_url (m(icon_name item \<mapsto> url)) items)"

definition build_icons_map ::
  "world \<Rightarrow> pystr \<Rightarrow> icon_record list \<Rightarrow> error + (pystr \<rightharpoonup> pystr)" where
  "build_icons_map w base_url icons = build_icons_loop w base_url Map.empty icons"

section \<open>The playlist writer\<close>

text \<open>The double quote and the line feed of the format strings.\<close>

definition dq :: pystr where
  "dq = [0x22]"

definition nl :: pystr where
  "nl = [0x0A]"

text \<open>The \<^verbatim>\<open>header\<close> of \<^verbatim>\<open>write_m3u8\<close>; the title starts with U+6210 U+90FD U+7535 U+4FE1.\<close>

definition m3u_header :: "pystr \<Rightarrow> pystr" where
  "m3u_header timestamp =
     ascii ''#EXTM3U name='' @ dq @ [0x6210, 0x90FD, 0x7535, 0x4FE1] @ ascii ''IPTV - '' @
     timestamp @ dq @ ascii '' url-tvg='' @ dq @
     ascii ''http://epg.51zmt.top:8000/e.xml,https://epg.112114.xyz/pp.xml'' @ dq @ nl @ nl"

definition extinf :: "processed_channel \<Rightarrow> pystr" where
  "extinf ch =
     ascii ''#EXTINF:-1 tvg-logo='' @ dq @ icon ch @ dq @
     ascii '' tvg-id='' @ dq @ chan_id ch @ dq @
     ascii '' tvg-name='' @ dq @ chan_name ch @ dq @
     ascii '' group-title='' @ dq @ tag ch @ dq @ ascii '','' @ chan_name ch @ nl"

text \<open>\<^verbatim>\<open>os.getenv('LAN_ADDRESS', 'http://localhost')\<close>\<close>

definition getenv_lan_address :: "world \<Rightarrow> pystr" where
  "getenv_lan_address w =
     (case lan_address w of None \<Rightarrow> ascii ''http://localhost'' | Some v \<Rightarrow> v)"

definition stream_url :: "world \<Rightarrow> bool \<Rightarrow> processed_channel \<Rightarrow> pystr" where
  "stream_url w use_lan_address ch =
     (if use_lan_address
      then getenv_lan_address w @ ascii ''/rtp/'' @ chan_address ch @ nl
      else ascii ''rtp://'' @ chan_address ch @ nl)"

text \<open>
  The file is opened with \<^verbatim>\<open>encoding='utf-8'\<close>. UTF-8 encodes every code point of a Python
  string but the surrogates U+D800 to U+DFFF (which \<^verbatim>\<open>os.getenv\<close> produces for the bytes of
  a variable that are not UTF-8, and which page text may hold).
\<close>

definition surrogate :: "nat \<Rightarrow> bool" where
  "surrogate c \<longleftrightarrow> 0xD800 \<le> c \<and> c \<le> 0xDFFF"

definition utf8_encodable :: "pystr \<Rightarrow> bool" where
  "utf8_encodable s \<longleftrightarrow> list_all (\<lambda>c. \<not> surrogate c) s"

text \<open>
  \<^verbatim>\<open>f.write(s)\<close> on the open file whose text so far is \<open>buf\<close>: the string is encoded as a
  whole, so the write appends all of it or raises \<^verbatim>\<open>UnicodeEncodeError\<close> and appends nothing.
\<close>

definition f_write :: "pystr \<Rightarrow> pystr \<Rightarrow> error + pystr" where
  "f_write buf s = (if utf8_encodable s then Inr (buf @ s) else Inl UnicodeEncodeError)"

text \<open>
  The loop of \<^verbatim>\<open>write_m3u8\<close> over the channels (lines 142-156): two writes per channel. It
  returns the text of the file when the loop is left and the exception that left it, if
  any.
\<close>

fun write_channels ::
  "world \<Rightarrow> bool \<Rightarrow> pystr \<Rightarrow> processed_channel list \<Rightarrow> pystr \<times> error option" where
  "write_channels w use_lan_address buf [] = (buf, None)"
| "write_channels w use_lan_address buf (ch # channels) =
     (case f_write buf (extinf ch) of
        Inl e \<Rightarrow> (buf, Some e)
      | Inr buf1 \<Rightarrow>
          (case f_write buf1 (stream_url w use_lan_address ch) of
             Inl e \<Rightarrow> (buf1, Some e)
           | Inr buf2 \<Rightarrow> write_channels w use_lan_address buf2 channels))"

text \<open>
  The file system is a map from paths to file texts. \<^verbatim>\<open>mkdir\<close> and \<^verbatim>\<open>open\<close> raise \<^verbatim>\<open>OSError\<close>
  where the path cannot be written, and the files are left as they were. Once the file is
  open (and emptied), an exception of a write leaves the \<^verbatim>\<open>with\<close> block, which closes the
  file with what was written before. Nothing in \<^verbatim>\<open>write_m3u8\<close> catches an exception: the
  result is the file system after the call and the exception raised, if any.
\<close>

type_synonym files = "pystr \<rightharpoonup> pystr"

definition write_m3u8 ::
  "world \<Rightarrow> pystr \<Rightarrow> files \<Rightarrow> processed_channel list \<Rightarrow> pystr \<Rightarrow> bool \<Rightarrow>
   files \<times> error option" where
  "write_m3u8 w timestamp fs channels output_path use_lan_address =
     (if \<not> writable w output_path then (fs, Some OSError)
      else (case f_write [] (m3u_header timestamp) of
              Inl e \<Rightarrow> (fs(output_path \<mapsto> []), Some e)
            | Inr buf \<Rightarrow>
                (case write_channels w use_lan_address buf channels of
                   (text, e) \<Rightarrow> (fs(output_path \<mapsto> text), e))))"

section \<open>The run\<close>

text \<open>
  \<^verbatim>\<open>run\<close> catches nothing either: an exception of \<^verbatim>\<open>build_icons_map\<close> ends it before any
  file is touched, and an exception of the first write ends it before the second.
\<close>

definition run :: "world \<Rightarrow> pystr \<Rightarrow> files \<Rightarrow> pystr \<Rightarrow> pystr \<Rightarrow> files \<times> error option" where
  "run w base_url fs output_with_lan output_native_rtp =
     (let raw_channels = extract_channels w base_url;
          icons = load_icons w base_url
      in case build_icons_map w base_url icons of
           Inl e \<Rightarrow> (fs, Some e)
         | Inr icons_map \<Rightarrow>
             (let processed = process_channels raw_channels icons_map
              in case write_m3u8 w (now_rfc3339 w 0) fs processed output_with_lan True of
                   (fs1, Some e) \<Rightarrow> (fs1, Some e)
                 | (fs1, None) \<Rightarrow>
                     write_m3u8 w (now_rfc3339 w 1) fs1 processed output_native_rtp False))"

section \<open>Reading a playlist back\<close>

text \<open>
  The text of a playlist all of whose writes succeed: the header, then for each channel
  its \<^verbatim>\<open>#EXTINF\<close> line and its stream-address line.
\<close>

definition playlist_text :: "world \<Rightarrow> pystr \<Rightarrow> bool \<Rightarrow> processed_channel list \<Rightarrow> pystr" where
  "playlist_text w timestamp use_lan_address channels =
     m3u_header timestamp @
     concat (map (\<lambda>ch. extinf ch @ stream_url w use_lan_address ch) channels)"

text \<open>
  The lines of a text are its pieces between line feeds (\<^verbatim>\<open>text.split('\n')\<close>); a line is
  blank when stripping it leaves nothing.
\<close>

fun split_lines :: "pystr \<Rightarrow> pystr list" where
  "split_lines [] = [[]]"
| "split_lines (c # cs) =
     (if c = 0x0A then [] # split_lines cs
      else (case split_lines cs of [] \<Rightarrow> [[c]] | l # ls \<Rightarrow> (c # l) # ls))"

definition nonblank_lines :: "pystr \<Rightarrow> pystr list" where
  "nonblank_lines text = filter (\<lambda>l. strip l \<noteq> []) (split_lines text)"

text \<open>A string without line feed, and a channel all of whose fields are such strings.\<close>

definition single_line :: "pystr \<Rightarrow> bool" where
  "single_line s \<longleftrightarrow> 0x0A \<notin> set s"

definition channel_single_line :: "processed_channel \<Rightarrow> bool" where
  "channel_single_line ch \<longleftrightarrow>
     single_line (icon ch) \<and> single_line (chan_id ch) \<and> single_line (chan_name ch) \<and>
     single_line (tag ch) \<and> single_line (chan_address ch)"

text \<open>A channel all of whose fields UTF-8 can encode.\<close>

definition channel_encodable :: "processed_channel \<Rightarrow> bool" where
  "channel_encodable ch \<longleftrightarrow>
     utf8_encodable (icon ch) \<and> utf8_encodable (chan_id ch) \<and> utf8_encodable (chan_name ch) \<and>
     utf8_encodable (tag ch) \<and> utf8_encodable (chan_address ch)"

section \<open>The specification's reading of the operations\<close>




section \<open>The scenarios of the specification\<close>

text \<open>
  A world for the examples. Three requests are answered, every other one times out:
  \<^item> \<^verbatim>\<open>http://icons\<close> with status 200 and a page of five rows: one with three cells, one
    whose link target is \<^verbatim>\<open>#\<close>, one without link, and two accepted rows of the same name
    \<^verbatim>\<open>A\<close> with the targets \<^verbatim>\<open>/a.png\<close> and \<^verbatim>\<open>/b.png\<close>;
  \<^item> \<^verbatim>\<open>http://badicons\<close> with status 200 and a page of one accepted row whose link target
    is \<^verbatim>\<open>//[\<close>;
  \<^item> \<^verbatim>\<open>http://moved/sctvmulticast.html\<close> with status 300 and a page of one channel row.

  \<^verbatim>\<open>urljoin\<close> raises on the link \<^verbatim>\<open>//[\<close> and appends every other link to the base (as the real
  one does for the bases and links used here), \<^verbatim>\<open>LAN_ADDRESS\<close> is unset, the clock reads a
  fixed time and every path can be written.
\<close>

definition cell :: "string \<Rightarrow> td" where
  "cell s = \<lparr>td_text = ascii s, td_href = None\<rparr>"

definition link_cell :: "string \<Rightarrow> td" where
  "link_cell s = \<lparr>td_text = [], td_href = Some (ascii s)\<rparr>"

definition example_icon_table :: "tr list" where
  "example_icon_table =
     [[link_cell ''/x.png'', cell ''x'', cell ''X''],
      [link_cell ''#'', cell ''b'', cell ''B'', cell ''2''],
      [cell ''c'', cell ''c'', cell ''C'', cell ''3''],
      [link_cell ''/a.png'', cell ''a'', cell ''A'', cell ''4''],
      [link_cell ''/b.png'', cell ''a'', cell ''A'', cell ''5'']]"

definition broken_icon_table :: "tr list" where
  "broken_icon_table = [[link_cell ''//['', cell ''b'', cell ''B'', cell ''1'']]"

definition example_channel_table :: "tr list" where
  "example_channel_table = [[cell ''1'', cell ''CCTV1'', cell ''239.1.1.1:5000'']]"

definition example_world :: world where
  "example_world =
     \<lparr>http_get = (\<lambda>url.
        if url = ascii ''http://icons'' then Inr \<lparr>status_code = 200, content = [0x3C]\<rparr>
        else if url = ascii ''http://badicons'' then Inr \<lparr>status_code = 200, content = [0x3E]\<rparr>
        else if url = ascii ''http://moved/sctvmulticast.html''
          then Inr \<lparr>status_code = 300, content = [0x3F]\<rparr>
        else Inl Timeout),
      soup_rows = (\<lambda>body.
        if body = [0x3C] then example_icon_table
        else if body = [0x3E] then broken_icon_table
        else if body = [0x3F] then example_channel_table
        else []),
      urljoin = (\<lambda>base url. if url = ascii ''//['' then None else Some (base @ url)),
      lan_address = None,
      now_rfc3339 = (\<lambda>n. ascii ''2024-01-01T00:00:00+00:00''),
      writable = (\<lambda>path. True)\<rparr>"

text \<open>
  The first output path of \<^verbatim>\<open>run\<close>, the clock reading of the example world, and the
  processed channel of scenario 1.
\<close>

definition example_path :: pystr where
  "example_path = ascii ''./m3u8/chengdu_with_lan.m3u8''"

definition example_time :: pystr where
  "example_time = ascii ''2024-01-01T00:00:00+00:00''"

definition plain_channel :: processed_channel where
  "plain_channel =
     \<lparr>chan_id = ascii ''1'', chan_name = ascii ''CCTV1'',
      chan_address = ascii ''239.1.1.1:5000'', tag = [0x592E, 0x89C6], icon = []\<rparr>"

text \<open>A processed channel whose name holds a line feed between \<^verbatim>\<open>a\<close> and \<^verbatim>\<open>b\<close>.\<close>

definition two_line_channel :: processed_channel where
  "two_line_channel =
     \<lparr>chan_id = ascii ''1'', chan_name = [0x61, 0x0A, 0x62],
      chan_address = ascii ''239.1.1.1:5000'', tag = other_category, icon = []\<rparr>"

text \<open>Scenario 1: the row \<^verbatim>\<open>["1", "CCTV-1 <U+9AD8 U+6E05>", "239.1.1.1:5000"]\<close>.\<close>

definition scenario1_row :: raw_channel where
  "scenario1_row =
     \<lparr>chan_id = ascii ''1'', chan_name = ascii ''CCTV-1 '' @ [0x9AD8, 0x6E05],
      chan_address = ascii ''239.1.1.1:5000''\<rparr>"

text \<open>Scenario 2: the row whose name is U+6D4B U+8BD5 U+9891 U+9053 (a test channel).\<close>

definition scenario2_row :: raw_channel where
  "scenario2_row =
     \<lparr>chan_id = ascii ''2'', chan_name = [0x6D4B, 0x8BD5, 0x9891, 0x9053],
      chan_address = ascii ''239.1.1.2:5000''\<rparr>"

text \<open>
  Scenario 3: the row whose name is U+56DB U+5DDD U+536B U+89C6 (Sichuan satellite
  television), a hyphen and the ultra high definition marker.
\<close>

definition scenario3_row :: raw_channel where
  "scenario3_row =
     \<lparr>chan_id = ascii ''3'',
      chan_name = [0x56DB, 0x5DDD, 0x536B, 0x89C6, 0x2D, 0x8D85, 0x9AD8, 0x6E05],
      chan_address = ascii ''239.1.1.3:5000''\<rparr>"

section \<open>Facts about the string operations\<close>

lemmas eval_defs =
  ascii_def cleanup_def cleanup_keywords_def filter_keywords_def strip_def isspace_def
  categorize_def category_rules_def other_category_def icon_get_def process_one_def Let_def




lemma str_remove_absent: "\<not> py_in kw s \<Longrightarrow> str_remove kw s = s"
  by (induction s) auto

lemma length_str_remove_le: "length (str_remove kw s) \<le> length s"
  by (induction kw s rule: str_remove.induct) auto

lemma length_str_remove_less:
  assumes "kw \<noteq> []"
  shows "py_in kw s \<Longrightarrow> length (str_remove kw s) < length s"
proof (induction s)
  case Nil
  with assms show ?case by simp
next
  case (Cons c cs)
  show ?case
  proof (cases "startswith (c # cs) kw")
    case True
    have "length (str_remove kw (drop (length kw) (c # cs))) \<le> length (drop (length kw) (c # cs))"
      by (rule length_str_remove_le)
    also have "\<dots> < length (c # cs)"
      using assms by simp
    finally show ?thesis
      using True assms by simp
  next
    case False
    with Cons.prems have "py_in kw cs" by simp
    then have "length (str_remove kw cs) < length cs" by (rule Cons.IH)
    with False show ?thesis by simp
  qed
qed

lemma set_str_remove: "set (str_remove kw s) \<subseteq> set s"
proof (induction kw s rule: str_remove.induct)
  case (1 kw)
  show ?case by simp
next
  case (2 kw c cs)
  show ?case
  proof (cases "kw \<noteq> [] \<and> startswith (c # cs) kw")
    case True
    then have "set (str_remove kw (c # cs)) \<subseteq> set (drop (length kw) (c # cs))"
      using "2.IH"(1) by simp
    also have "\<dots> \<subseteq> set (c # cs)" by (rule set_drop_subset)
    finally show ?thesis .
  next
    case False
    then show ?thesis using "2.IH"(2) by auto
  qed
qed

lemma str_remove_single: "str_remove [c] s = filter (\<lambda>x. x \<noteq> c) s"
  by (induction s) auto

lemma dropWhile_strip: "dropWhile isspace (strip s) = strip s"
proof (cases "strip s = []")
  case True
  then show ?thesis by simp
next
  case False
  define u where "u = dropWhile isspace s"
  have t: "strip s = rev (dropWhile isspace (rev u))"
    by (simp add: strip_def u_def)
  have "rev u = takeWhile isspace (rev u) @ dropWhile isspace (rev u)"
    by simp
  then have "u = strip s @ rev (takeWhile isspace (rev u))"
    unfolding t by (metis rev_append rev_rev_ident)
  with False have hd: "hd (strip s) = hd u" and "u \<noteq> []"
    by (metis hd_append2, metis append_is_Nil_conv)
  then have "\<not> isspace (hd u)"
    unfolding u_def by (metis hd_dropWhile)
  with hd False show ?thesis
    by (metis dropWhile_eq_self_iff)
qed

lemma strip_idem: "strip (strip s) = strip s"
proof -
  have "strip (strip s) = rev (dropWhile isspace (rev (strip s)))"
    unfolding strip_def[of "strip s"] by (simp only: dropWhile_strip)
  also have "\<dots> = strip s"
    by (simp add: strip_def)
  finally show ?thesis .
qed

lemma set_strip: "set (strip s) \<subseteq> set s"
  unfolding strip_def by (metis set_rev set_dropWhileD subsetI)

lemma length_strip_le: "length (strip s) \<le> length s"
  unfolding strip_def
  by (metis length_dropWhile_le length_rev le_trans)

section \<open>The channel normalizer: scenarios and categorization\<close>



text \<open>
  Claim C1, as the code has it. The hyphen is itself a cleanup keyword, so the row of
  scenario 1 is normalized to the name \<^verbatim>\<open>CCTV1\<close>: with an icon index that has no entry
  for \<^verbatim>\<open>CCTV1\<close>, the normalizer produces exactly one record, with name \<^verbatim>\<open>CCTV1\<close>, tag
  U+592E U+89C6 and the empty icon.
\<close>

theorem scenario1_processed:
  "icons_map (ascii ''CCTV1'') = None \<Longrightarrow>
   process_channels [scenario1_row] icons_map =
     [\<lparr>chan_id = ascii ''1'', chan_name = ascii ''CCTV1'',
       chan_address = ascii ''239.1.1.1:5000'', tag = [0x592E, 0x89C6], icon = []\<rparr>]"
  by (simp add: scenario1_row_def eval_defs)

theorem scenario1_processed_witness:
  "process_channels [scenario1_row] Map.empty =
     [\<lparr>chan_id = ascii ''1'', chan_name = ascii ''CCTV1'',
       chan_address = ascii ''239.1.1.1:5000'', tag = [0x592E, 0x89C6], icon = []\<rparr>]"
  using scenario1_processed [of Map.empty] by simp

text \<open>
  The claim as stated fails: with the empty icon index the name produced for scenario 1
  is \<^verbatim>\<open>CCTV1\<close>, which is not \<^verbatim>\<open>CCTV-1\<close>.
\<close>

theorem scenario1_name_counterexample:
  "map chan_name (process_channels [scenario1_row] Map.empty) = [ascii ''CCTV1''] \<and>
   ascii ''CCTV1'' \<noteq> ascii ''CCTV-1''"
  by (simp add: scenario1_row_def eval_defs)



text \<open>
  Claim C10. The filter looks at the raw name only: the raw name U+6D4B, hyphen, U+8BD5
  contains no filter keyword, its cleaned name U+6D4B U+8BD5 is a filter keyword, and
  a row with that raw name is kept in the output under the cleaned name.
\<close>

theorem filter_tests_raw_name_only:
  "\<not> contains_any [0x6D4B, 0x2D, 0x8BD5] filter_keywords \<and>
   cleanup [0x6D4B, 0x2D, 0x8BD5] = [0x6D4B, 0x8BD5] \<and>
   contains_any (cleanup [0x6D4B, 0x2D, 0x8BD5]) filter_keywords \<and>
   process_channels
     [\<lparr>chan_id = i, chan_name = [0x6D4B, 0x2D, 0x8BD5], chan_address = a\<rparr>] icons_map =
     [\<lparr>chan_id = i, chan_name = [0x6D4B, 0x8BD5], chan_address = a,
       tag = other_category, icon = icon_get icons_map [0x6D4B, 0x8BD5]\<rparr>]"
  by (simp add: eval_defs)

section \<open>The cleanup step\<close>

lemma remove_all_absent:
  "\<not> contains_any n kws \<Longrightarrow> foldl (\<lambda>n kw. str_remove kw n) n kws = n"
  by (induction kws) (simp_all add: str_remove_absent)

lemma length_remove_all_le: "length (foldl (\<lambda>n kw. str_remove kw n) n kws) \<le> length n"
proof (induction kws arbitrary: n)
  case Nil
  show ?case by simp
next
  case (Cons kw kws)
  have "length (foldl (\<lambda>n kw. str_remove kw n) (str_remove kw n) kws) \<le> length (str_remove kw n)"
    by (rule Cons.IH)
  also have "\<dots> \<le> length n" by (rule length_str_remove_le)
  finally show ?case by simp
qed

lemma length_remove_all_less:
  "[] \<notin> set kws \<Longrightarrow> contains_any n kws \<Longrightarrow>
   length (foldl (\<lambda>n kw. str_remove kw n) n kws) < length n"
proof (induction kws)
  case Nil
  then show ?case by simp
next
  case (Cons kw kws)
  show ?case
  proof (cases "py_in kw n")
    case True
    have "length (foldl (\<lambda>n kw. str_remove kw n) (str_remove kw n) kws) \<le> length (str_remove kw n)"
      by (rule length_remove_all_le)
    also have "\<dots> < length n"
      using True Cons.prems(1) by (intro length_str_remove_less) auto
    finally show ?thesis by simp
  next
    case False
    with Cons show ?thesis by (simp add: str_remove_absent)
  qed
qed

lemma cleanup_keywords_nonempty: "[] \<notin> set cleanup_keywords"
  by (simp add: cleanup_keywords_def ascii_def)

text \<open>
  Claim C2, as the code has it. One pass over the keywords can leave a keyword behind
  (removing a later keyword joins the halves of an earlier one), so cleaning twice gives
  the same name exactly when the cleaned name contains no cleanup keyword:
  \<open>cleanup (cleanup n) = cleanup n\<close> if and only if no cleanup keyword is a substring of
  \<open>cleanup n\<close>.
\<close>

theorem cleanup_idempotent_iff:
  "cleanup (cleanup n) = cleanup n \<longleftrightarrow> \<not> contains_any (cleanup n) cleanup_keywords"
proof
  assume eq: "cleanup (cleanup n) = cleanup n"
  show "\<not> contains_any (cleanup n) cleanup_keywords"
  proof
    assume "contains_any (cleanup n) cleanup_keywords"
    then have "length (foldl (\<lambda>n kw. str_remove kw n) (cleanup n) cleanup_keywords) < length (cleanup n)"
      using cleanup_keywords_nonempty by (intro length_remove_all_less)
    moreover have "length (cleanup (cleanup n)) \<le>
        length (foldl (\<lambda>n kw. str_remove kw n) (cleanup n) cleanup_keywords)"
      unfolding cleanup_def[of "cleanup n"] by (rule length_strip_le)
    ultimately have "length (cleanup (cleanup n)) < length (cleanup n)"
      by simp
    with eq show False by simp
  qed
next
  assume "\<not> contains_any (cleanup n) cleanup_keywords"
  then have "foldl (\<lambda>n kw. str_remove kw n) (cleanup n) cleanup_keywords = cleanup n"
    by (rule remove_all_absent)
  then have "cleanup (cleanup n) = strip (cleanup n)"
    unfolding cleanup_def[of "cleanup n"] by simp
  also have "\<dots> = cleanup n"
    unfolding cleanup_def by (rule strip_idem)
  finally show "cleanup (cleanup n) = cleanup n" .
qed

theorem cleanup_idempotent_witness:
  "\<not> contains_any (cleanup (ascii ''CCTV-1 '' @ [0x9AD8, 0x6E05])) cleanup_keywords \<and>
   cleanup (cleanup (ascii ''CCTV-1 '' @ [0x9AD8, 0x6E05])) = ascii ''CCTV1''"
proof -
  have c: "cleanup (ascii ''CCTV-1 '' @ [0x9AD8, 0x6E05]) = ascii ''CCTV1''"
    by (simp add: eval_defs)
  have k: "\<not> contains_any (ascii ''CCTV1'') cleanup_keywords"
    by (simp add: cleanup_keywords_def ascii_def)
  from cleanup_idempotent_iff [of "ascii ''CCTV-1 '' @ [0x9AD8, 0x6E05]"] c k
  show ?thesis by simp
qed

text \<open>
  The claim as stated fails at the name U+9AD8, hyphen, U+6E05: it is cleaned to
  U+9AD8 U+6E05 (the hyphen goes after the keyword U+9AD8 U+6E05 had its turn), and
  cleaning that gives the empty name.
\<close>

theorem cleanup_not_idempotent_counterexample:
  "cleanup [0x9AD8, 0x2D, 0x6E05] = [0x9AD8, 0x6E05] \<and>
   cleanup (cleanup [0x9AD8, 0x2D, 0x6E05]) = [] \<and>
   cleanup (cleanup [0x9AD8, 0x2D, 0x6E05]) \<noteq> cleanup [0x9AD8, 0x2D, 0x6E05]"
  by (simp add: eval_defs)

section \<open>The normalizer as a filter and a map\<close>

lemma hyphen_not_in_cleanup: "\<not> py_in (ascii ''-'') (cleanup n)"
proof -
  let ?a = "str_remove [0x8D85, 0x9AD8, 0x6E05] n"
  let ?b = "str_remove [0x9AD8, 0x6E05] ?a"
  let ?c = "str_remove [0x2D] ?b"
  let ?d = "str_remove [0x6807, 0x6E05] ?c"
  have "cleanup n = strip ?d"
    by (simp add: cleanup_def cleanup_keywords_def ascii_def)
  moreover have "0x2D \<notin> set ?c"
    by (simp add: str_remove_single)
  then have "0x2D \<notin> set (strip ?d)"
    using set_str_remove [of "[0x6807, 0x6E05]" ?c] set_strip [of ?d] by blast
  ultimately have "0x2D \<notin> set (cleanup n)" by simp
  moreover have "py_in [c] s \<longleftrightarrow> c \<in> set s" for c :: nat and s
    by (induction s) auto
  ultimately show ?thesis by (simp add: ascii_def)
qed

lemma process_channels_filter:
  "process_channels chs m =
     map (\<lambda>ch. process_one ch m) (filter (\<lambda>ch. \<not> contains_any (chan_name ch) filter_keywords) chs)"
  by (induction chs) simp_all

lemma process_one_sel [simp]:
  "chan_id (process_one ch m) = chan_id ch"
  "chan_name (process_one ch m) = cleanup (chan_name ch)"
  "chan_address (process_one ch m) = chan_address ch"
  "tag (process_one ch m) = categorize (cleanup (chan_name ch))"
  "icon (process_one ch m) = icon_get m (cleanup (chan_name ch))"
  by (simp_all add: process_one_def Let_def)

text \<open>
  Claim C3, as the code has it. Every processed channel comes from a raw row whose raw
  name contains no filter keyword; it keeps the id and the address of that row, its name
  is the cleanup of the raw name, and that name never contains the hyphen. (The other
  cleanup keywords can be left in it, see the counterexample.)
\<close>

theorem processed_channel_origin:
  "p \<in> set (process_channels chs m) \<Longrightarrow>
   \<exists>ch \<in> set chs. \<not> contains_any (chan_name ch) filter_keywords \<and>
      p = process_one ch m \<and> chan_id p = chan_id ch \<and> chan_address p = chan_address ch \<and>
      chan_name p = cleanup (chan_name ch) \<and> \<not> py_in (ascii ''-'') (chan_name p)"
  by (auto simp: process_channels_filter hyphen_not_in_cleanup)

theorem processed_channel_origin_witness:
  "process_one scenario1_row Map.empty \<in> set (process_channels [scenario1_row, scenario2_row] Map.empty) \<and>
   \<not> contains_any (chan_name scenario1_row) filter_keywords \<and>
   \<not> py_in (ascii ''-'') (chan_name (process_one scenario1_row Map.empty))"
proof -
  let ?p = "process_one scenario1_row Map.empty"
  have 1: "\<not> contains_any (chan_name scenario1_row) filter_keywords"
    by (simp add: scenario1_row_def filter_keywords_def ascii_def)
  have 2: "contains_any (chan_name scenario2_row) filter_keywords"
    by (simp add: scenario2_row_def filter_keywords_def ascii_def)
  from 1 2 have mem: "?p \<in> set (process_channels [scenario1_row, scenario2_row] Map.empty)"
    by simp
  from processed_channel_origin [OF mem]
  have "\<not> py_in (ascii ''-'') (chan_name ?p)"
    by blast
  with mem 1 show ?thesis by blast
qed

text \<open>
  The first half of the claim as stated fails: the row with raw name U+9AD8, hyphen,
  U+6E05 passes the filter and its processed name is U+9AD8 U+6E05, a cleanup keyword.
\<close>

theorem processed_name_keeps_keyword_counterexample:
  "map chan_name
     (process_channels
        [\<lparr>chan_id = ascii ''1'', chan_name = [0x9AD8, 0x2D, 0x6E05],
          chan_address = ascii ''239.1.1.1:5000''\<rparr>] Map.empty) = [[0x9AD8, 0x6E05]] \<and>
   py_in [0x9AD8, 0x6E05] [0x9AD8, 0x6E05] \<and>
   contains_any [0x9AD8, 0x6E05] cleanup_keywords"
  by (simp add: eval_defs)

text \<open>
  Claim C5. The output is the list of surviving rows, each processed, in input order: the
  ids of the output are a subsequence of the ids of the input, hence a subset of them, and
  a row whose raw name contains a filter keyword contributes nothing, as the row of
  scenario 2 does.
\<close>

theorem process_channels_subsequence:
  "process_channels chs m =
     map (\<lambda>ch. process_one ch m) (filter (\<lambda>ch. \<not> contains_any (chan_name ch) filter_keywords) chs) \<and>
   subseq (map chan_id (process_channels chs m)) (map chan_id chs) \<and>
   set (map chan_id (process_channels chs m)) \<subseteq> set (map chan_id chs) \<and>
   (contains_any (chan_name ch) filter_keywords \<longrightarrow>
      process_channels (xs @ ch # ys) m = process_channels (xs @ ys) m) \<and>
   contains_any (chan_name scenario2_row) filter_keywords"
proof (intro conjI)
  let ?keep = "\<lambda>ch. \<not> contains_any (chan_name ch) filter_keywords"
  show f: "process_channels chs m = map (\<lambda>ch. process_one ch m) (filter ?keep chs)"
    by (rule process_channels_filter)
  have ids: "map chan_id (process_channels chs m) = map chan_id (filter ?keep chs)"
    by (simp add: process_channels_filter o_def)
  show "subseq (map chan_id (process_channels chs m)) (map chan_id chs)"
    unfolding ids by (intro subseq_map subseq_filter_left)
  show "set (map chan_id (process_channels chs m)) \<subseteq> set (map chan_id chs)"
    unfolding ids by auto
  show "contains_any (chan_name ch) filter_keywords \<longrightarrow>
      process_channels (xs @ ch # ys) m = process_channels (xs @ ys) m"
    by (simp add: process_channels_filter)
  show "contains_any (chan_name scenario2_row) filter_keywords"
    by (simp add: scenario2_row_def filter_keywords_def ascii_def)
qed

theorem process_channels_subsequence_witness:
  "map chan_id (process_channels [scenario1_row, scenario2_row, scenario3_row] Map.empty) =
     [ascii ''1'', ascii ''3''] \<and>
   process_channels ([scenario1_row] @ scenario2_row # [scenario3_row]) Map.empty =
     process_channels ([scenario1_row] @ [scenario3_row]) Map.empty"
proof -
  from process_channels_subsequence
    [of "[scenario1_row, scenario2_row, scenario3_row]" Map.empty scenario2_row
        "[scenario1_row]" "[scenario3_row]"]
  have f: "process_channels [scenario1_row, scenario2_row, scenario3_row] Map.empty =
      map (\<lambda>ch. process_one ch Map.empty)
        (filter (\<lambda>ch. \<not> contains_any (chan_name ch) filter_keywords)
           [scenario1_row, scenario2_row, scenario3_row])"
    and d: "process_channels ([scenario1_row] @ scenario2_row # [scenario3_row]) Map.empty =
      process_channels ([scenario1_row] @ [scenario3_row]) Map.empty"
    by blast+
  have 1: "\<not> contains_any (chan_name scenario1_row) filter_keywords"
    by (simp add: scenario1_row_def filter_keywords_def ascii_def)
  have 2: "contains_any (chan_name scenario2_row) filter_keywords"
    by (simp add: scenario2_row_def filter_keywords_def ascii_def)
  have 3: "\<not> contains_any (chan_name scenario3_row) filter_keywords"
    by (simp add: scenario3_row_def filter_keywords_def ascii_def)
  have "map chan_id (process_channels [scenario1_row, scenario2_row, scenario3_row] Map.empty) =
      [chan_id scenario1_row, chan_id scenario3_row]"
    unfolding f using 1 2 3 by simp
  then show ?thesis
    using d by (simp add: scenario1_row_def scenario3_row_def)
qed

section \<open>The lines of a playlist\<close>

lemma split_lines_nonempty: "split_lines s \<noteq> []"
  by (induction s) (auto split: list.splits)

lemma split_lines_line:
  "single_line l \<Longrightarrow> split_lines (l @ 0x0A # rest) = l # split_lines rest"
  by (induction l) (auto simp: single_line_def split_lines_nonempty split: list.splits)

lemma strip_eq_Nil_iff: "strip l = [] \<longleftrightarrow> (\<forall>c \<in> set l. isspace c)"
proof -
  have "strip l = [] \<longleftrightarrow> (\<forall>c \<in> set (dropWhile isspace l). isspace c)"
    by (simp add: strip_def dropWhile_eq_Nil_conv)
  also have "\<dots> \<longleftrightarrow> (\<forall>c \<in> set l. isspace c)"
  proof
    assume a: "\<forall>c \<in> set (dropWhile isspace l). isspace c"
    have "dropWhile isspace l = []"
    proof (rule ccontr)
      assume "dropWhile isspace l \<noteq> []"
      then have "\<not> isspace (hd (dropWhile isspace l))" "hd (dropWhile isspace l) \<in> set (dropWhile isspace l)"
        by (simp_all add: hd_dropWhile)
      with a show False by blast
    qed
    then show "\<forall>c \<in> set l. isspace c" by (simp add: dropWhile_eq_Nil_conv)
  next
    assume "\<forall>c \<in> set l. isspace c"
    then show "\<forall>c \<in> set (dropWhile isspace l). isspace c"
      by (meson set_dropWhileD)
  qed
  finally show ?thesis .
qed

lemma nonblank_if_mem: "c \<in> set l \<Longrightarrow> \<not> isspace c \<Longrightarrow> strip l \<noteq> []"
  by (auto simp: strip_eq_Nil_iff)

lemma single_line_append [simp]: "single_line (a @ b) \<longleftrightarrow> single_line a \<and> single_line b"
  by (auto simp: single_line_def)

lemma single_line_dq [simp]: "single_line dq"
  by (simp add: single_line_def dq_def)

lemma extinf_line: "extinf ch = butlast (extinf ch) @ [0x0A]"
  by (simp add: extinf_def nl_def butlast_append)

lemma extinf_single: "channel_single_line ch \<Longrightarrow> single_line (butlast (extinf ch))"
  by (simp add: extinf_def nl_def butlast_append channel_single_line_def)
     (simp add: single_line_def ascii_def dq_def)

lemma extinf_nonblank: "strip (butlast (extinf ch)) \<noteq> []"
  by (rule nonblank_if_mem [of "0x23"]) (simp_all add: extinf_def nl_def butlast_append ascii_def isspace_def)

lemma stream_line: "stream_url w u ch = butlast (stream_url w u ch) @ [0x0A]"
  by (simp add: stream_url_def nl_def butlast_append)

lemma stream_single:
  "single_line (chan_address ch) \<Longrightarrow> (u \<Longrightarrow> single_line (getenv_lan_address w)) \<Longrightarrow>
   single_line (butlast (stream_url w u ch))"
  by (cases u) (simp_all add: stream_url_def nl_def butlast_append, simp_all add: single_line_def ascii_def dq_def)

lemma stream_nonblank: "strip (butlast (stream_url w u ch)) \<noteq> []"
  by (rule nonblank_if_mem [of "0x2F"]) (simp_all add: stream_url_def nl_def butlast_append ascii_def isspace_def)

lemma header_line: "m3u_header ts = butlast (butlast (m3u_header ts)) @ [0x0A, 0x0A]"
  by (simp add: m3u_header_def nl_def butlast_append)

lemma header_single: "single_line ts \<Longrightarrow> single_line (butlast (butlast (m3u_header ts)))"
  by (simp add: m3u_header_def nl_def butlast_append) (simp add: single_line_def ascii_def dq_def)

lemma header_nonblank: "strip (butlast (butlast (m3u_header ts))) \<noteq> []"
  by (rule nonblank_if_mem [of "0x23"]) (simp_all add: m3u_header_def nl_def butlast_append ascii_def isspace_def)

lemma split_lines_body:
  assumes "\<forall>ch \<in> set chs. channel_single_line ch"
    and "u \<Longrightarrow> single_line (getenv_lan_address w)"
  shows "split_lines (concat (map (\<lambda>ch. extinf ch @ stream_url w u ch) chs)) =
         concat (map (\<lambda>ch. [butlast (extinf ch), butlast (stream_url w u ch)]) chs) @ [[]]"
  using assms(1)
proof (induction chs)
  case Nil
  show ?case by simp
next
  case (Cons ch chs)
  let ?rest = "concat (map (\<lambda>ch. extinf ch @ stream_url w u ch) chs)"
  from Cons.prems have sl: "channel_single_line ch" by simp
  then have adr: "single_line (chan_address ch)" by (simp add: channel_single_line_def)
  have "concat (map (\<lambda>ch. extinf ch @ stream_url w u ch) (ch # chs)) =
        butlast (extinf ch) @ 0x0A # (butlast (stream_url w u ch) @ 0x0A # ?rest)"
    using extinf_line [of ch] stream_line [of w u ch] by simp
  also have "split_lines \<dots> =
        butlast (extinf ch) # butlast (stream_url w u ch) # split_lines ?rest"
    using extinf_single [OF sl] stream_single [OF adr assms(2)]
    by (simp add: split_lines_line)
  finally show ?case
    using Cons by simp
qed

lemma length_concat_pairs: "length (concat (map (\<lambda>x. [f x, g x]) xs)) = 2 * length xs"
  by (induction xs) simp_all

lemma filter_nonblank_body:
  "filter (\<lambda>l. strip l \<noteq> []) (concat (map (\<lambda>ch. [butlast (extinf ch), butlast (stream_url w u ch)]) chs)) =
   concat (map (\<lambda>ch. [butlast (extinf ch), butlast (stream_url w u ch)]) chs)"
  by (induction chs) (simp_all add: extinf_nonblank stream_nonblank)

lemma strip_Nil: "strip [] = []"
  by (simp add: strip_def)

lemma nonblank_lines_playlist:
  assumes "single_line timestamp"
    and "\<forall>ch \<in> set channels. channel_single_line ch"
    and "use_lan_address \<Longrightarrow> single_line (getenv_lan_address w)"
  shows "nonblank_lines (playlist_text w timestamp use_lan_address channels) =
           butlast (butlast (m3u_header timestamp)) #
           concat (map (\<lambda>ch. [butlast (extinf ch), butlast (stream_url w use_lan_address ch)]) channels)"
proof -
  let ?body = "concat (map (\<lambda>ch. extinf ch @ stream_url w use_lan_address ch) channels)"
  let ?lines = "concat (map (\<lambda>ch. [butlast (extinf ch), butlast (stream_url w use_lan_address ch)]) channels)"
  let ?h = "butlast (butlast (m3u_header timestamp))"
  have "playlist_text w timestamp use_lan_address channels = ?h @ 0x0A # ([] @ 0x0A # ?body)"
    unfolding playlist_text_def using header_line [of timestamp] by simp
  also have "split_lines \<dots> = ?h # [] # split_lines ?body"
    using header_single [OF assms(1)]
    by (simp only: split_lines_line) (simp add: split_lines_line single_line_def)
  also have "split_lines ?body = ?lines @ [[]]"
    using assms(2,3) by (intro split_lines_body) auto
  finally show ?thesis
    by (simp add: nonblank_lines_def header_nonblank strip_Nil filter_nonblank_body)
qed

section \<open>The writes of a playlist\<close>

lemma utf8_encodable_append [simp]:
  "utf8_encodable (a @ b) \<longleftrightarrow> utf8_encodable a \<and> utf8_encodable b"
  by (simp add: utf8_encodable_def)

lemma utf8_encodable_ascii [simp]: "utf8_encodable (ascii s)"
proof -
  have "\<not> surrogate (of_char c)" for c :: char
    using nat_of_char_less_256 [of c] unfolding surrogate_def by linarith
  then show ?thesis
    by (simp add: utf8_encodable_def ascii_def list_all_iff)
qed

lemma utf8_encodable_Nil [simp]: "utf8_encodable []"
  by (simp add: utf8_encodable_def)

lemma utf8_encodable_Cons [simp]:
  "utf8_encodable (c # s) \<longleftrightarrow> \<not> surrogate c \<and> utf8_encodable s"
  by (simp add: utf8_encodable_def)

lemma utf8_encodable_dq [simp]: "utf8_encodable dq"
  by (simp add: dq_def surrogate_def)

lemma utf8_encodable_nl [simp]: "utf8_encodable nl"
  by (simp add: nl_def surrogate_def)

lemma header_encodable: "utf8_encodable (m3u_header ts) \<longleftrightarrow> utf8_encodable ts"
  by (simp add: m3u_header_def surrogate_def)

lemma extinf_encodable: "channel_encodable ch \<Longrightarrow> utf8_encodable (extinf ch)"
  by (simp add: extinf_def channel_encodable_def)

lemma stream_encodable:
  "utf8_encodable (chan_address ch) \<Longrightarrow> (u \<Longrightarrow> utf8_encodable (getenv_lan_address w)) \<Longrightarrow>
   utf8_encodable (stream_url w u ch)"
  by (cases u) (simp_all add: stream_url_def)


lemma write_channels_complete:
  "\<forall>ch \<in> set chs. utf8_encodable (extinf ch) \<and> utf8_encodable (stream_url w u ch) \<Longrightarrow>
   write_channels w u buf chs = (buf @ concat (map (\<lambda>ch. extinf ch @ stream_url w u ch) chs), None)"
  by (induction chs arbitrary: buf) (simp_all add: f_write_def)


lemma write_m3u8_complete:
  assumes "writable w path" and "utf8_encodable ts"
    and "\<forall>ch \<in> set chs. channel_encodable ch"
    and "u \<Longrightarrow> utf8_encodable (getenv_lan_address w)"
  shows "write_m3u8 w ts fs chs path u = (fs(path \<mapsto> playlist_text w ts u chs), None)"
proof -
  have "\<forall>ch \<in> set chs. utf8_encodable (extinf ch) \<and> utf8_encodable (stream_url w u ch)"
    using assms(3,4) by (auto simp: extinf_encodable stream_encodable channel_encodable_def)
  then have "write_channels w u (m3u_header ts) chs =
      (m3u_header ts @ concat (map (\<lambda>ch. extinf ch @ stream_url w u ch) chs), None)"
    by (rule write_channels_complete)
  with assms(1,2) show ?thesis
    by (simp add: write_m3u8_def f_write_def header_encodable playlist_text_def)
qed



lemma example_world_sel [simp]:
  "writable example_world p"
  "lan_address example_world = None"
  "now_rfc3339 example_world n = example_time"
  by (simp_all add: example_world_def example_time_def)


text \<open>
  Claim C6, as the code has it. The writer copies the fields into the text as they are
  and encodes the text as UTF-8, so the count holds for fields it can write on lines of
  their own: when the output path can be written, and the timestamp, every field of every
  channel and, in LAN mode, the LAN address contain no line feed and no surrogate code
  point, \<^verbatim>\<open>write_m3u8\<close> completes and leaves in the file the header line followed, for each
  channel in order, by its \<^verbatim>\<open>#EXTINF\<close> line and its stream-address line (each written line
  without the line feed that ends it): these are the non-blank lines of the file, \<open>2 * n + 1\<close>
  of them for \<open>n\<close> channels.
\<close>

theorem playlist_nonblank_lines:
  assumes "writable w output_path"
    and "single_line timestamp" and "utf8_encodable timestamp"
    and "\<forall>ch \<in> set channels. channel_single_line ch \<and> channel_encodable ch"
    and "use_lan_address \<longrightarrow>
           single_line (getenv_lan_address w) \<and> utf8_encodable (getenv_lan_address w)"
  shows "write_m3u8 w timestamp fs channels output_path use_lan_address =
           (fs(output_path \<mapsto> playlist_text w timestamp use_lan_address channels), None) \<and>
         nonblank_lines (playlist_text w timestamp use_lan_address channels) =
           butlast (butlast (m3u_header timestamp)) #
           concat (map (\<lambda>ch. [butlast (extinf ch), butlast (stream_url w use_lan_address ch)]) channels) \<and>
         length (nonblank_lines (playlist_text w timestamp use_lan_address channels)) =
           2 * length channels + 1"
proof -
  have written: "write_m3u8 w timestamp fs channels output_path use_lan_address =
      (fs(output_path \<mapsto> playlist_text w timestamp use_lan_address channels), None)"
    using assms by (intro write_m3u8_complete) auto
  have lines: "nonblank_lines (playlist_text w timestamp use_lan_address channels) =
      butlast (butlast (m3u_header timestamp)) #
      concat (map (\<lambda>ch. [butlast (extinf ch), butlast (stream_url w use_lan_address ch)]) channels)"
    using assms by (intro nonblank_lines_playlist) auto
  from written lines show ?thesis
    by (simp add: length_concat_pairs)
qed

theorem playlist_nonblank_lines_witness:
  "snd (write_m3u8 example_world example_time Map.empty
          (process_channels [scenario1_row, scenario3_row] Map.empty) example_path True) = None \<and>
   map_option (\<lambda>text. length (nonblank_lines text))
     (fst (write_m3u8 example_world example_time Map.empty
             (process_channels [scenario1_row, scenario3_row] Map.empty) example_path True)
        example_path) = Some 5"
proof -
  let ?chs = "process_channels [scenario1_row, scenario3_row] Map.empty"
  have p: "writable example_world example_path"
    by simp
  have ts: "single_line example_time" "utf8_encodable example_time"
    by (simp add: example_time_def single_line_def ascii_def) (simp add: example_time_def)
  have chs: "\<forall>ch \<in> set ?chs. channel_single_line ch \<and> channel_encodable ch"
    by (simp add: scenario1_row_def scenario3_row_def eval_defs channel_single_line_def
        single_line_def channel_encodable_def surrogate_def)
  have lan: "True \<longrightarrow> single_line (getenv_lan_address example_world) \<and>
      utf8_encodable (getenv_lan_address example_world)"
    by (simp add: getenv_lan_address_def) (simp add: single_line_def ascii_def)
  have n: "length ?chs = 2"
    by (simp add: scenario1_row_def scenario3_row_def filter_keywords_def ascii_def)
  from playlist_nonblank_lines [OF p ts chs lan, of Map.empty]
  have "write_m3u8 example_world example_time Map.empty ?chs example_path True =
      (Map.empty(example_path \<mapsto> playlist_text example_world example_time True ?chs), None)"
    and "length (nonblank_lines (playlist_text example_world example_time True ?chs)) =
      2 * length ?chs + 1"
    by blast+
  with n show ?thesis by simp
qed

text \<open>
  The claim as stated fails in two ways, each for a channel list of length one. A channel
  name with a line feed inside, as the normalizer produces it from such a raw name, gives
  a file of five non-blank lines. And with \<^verbatim>\<open>LAN_ADDRESS\<close> holding a byte that is not UTF-8
  (read by \<^verbatim>\<open>os.getenv\<close> as the surrogate U+DCFF), the LAN-mode write of the processed
  channel of scenario 1 raises \<^verbatim>\<open>UnicodeEncodeError\<close> at the stream-address line and leaves a
  file of two non-blank lines.
\<close>

theorem playlist_line_count_counterexample:
  "process_channels
     [\<lparr>chan_id = ascii ''1'', chan_name = [0x61, 0x0A, 0x62],
       chan_address = ascii ''239.1.1.1:5000''\<rparr>] Map.empty = [two_line_channel] \<and>
   snd (write_m3u8 example_world example_time Map.empty [two_line_channel] example_path False) =
     None \<and>
   map_option (\<lambda>text. length (nonblank_lines text))
     (fst (write_m3u8 example_world example_time Map.empty [two_line_channel] example_path False)
        example_path) = Some 5 \<and>
   process_channels [scenario1_row] Map.empty = [plain_channel] \<and>
   snd (write_m3u8 (example_world\<lparr>lan_address := Some (ascii ''http://h'' @ [0xDCFF])\<rparr>)
          example_time Map.empty [plain_channel] example_path True) = Some UnicodeEncodeError \<and>
   map_option (\<lambda>text. length (nonblank_lines text))
     (fst (write_m3u8 (example_world\<lparr>lan_address := Some (ascii ''http://h'' @ [0xDCFF])\<rparr>)
             example_time Map.empty [plain_channel] example_path True)
        example_path) = Some 2"
  by (simp add: write_m3u8_def f_write_def write_channels.simps utf8_encodable_def surrogate_def
      nonblank_lines_def m3u_header_def extinf_def stream_url_def getenv_lan_address_def
      example_world_def example_time_def example_path_def two_line_channel_def plain_channel_def
      scenario1_row_def nl_def dq_def eval_defs)



section \<open>A failed fetch of the channel page\<close>

lemma fetch_fails:
  assumes "(\<exists>e. http_get w url = Inl e) \<or>
     (\<exists>resp. http_get w url = Inr resp \<and> 400 \<le> status_code resp \<and> status_code resp < 600)"
  shows "fetch w url = None"
  using assms by (auto simp: fetch_def fetch_try_def raise_for_status_def)

lemma write_header_only:
  "writable w path \<Longrightarrow> utf8_encodable ts \<Longrightarrow>
   write_m3u8 w ts fs [] path u = (fs(path \<mapsto> m3u_header ts), None)"
  by (simp add: write_m3u8_def f_write_def header_encodable)
lemma example_icons_built:
  "build_icons_map example_world (ascii ''http://icons'')
     (load_icons example_world (ascii ''http://icons'')) =
   Inr [ascii ''A'' \<mapsto> ascii ''http://icons/b.png'']"
  by (simp add: build_icons_map_def load_icons_def fetch_def fetch_try_def raise_for_status_def
      example_world_def example_icon_table_def cell_def link_cell_def ascii_def)

text \<open>
  Claim C8, as the code has it. When the GET of the channel page raises (a timeout, a
  transport error, any exception) or answers with a status that \<^verbatim>\<open>raise_for_status\<close>
  rejects (400 to 599), \<^verbatim>\<open>fetch\<close> returns \<^verbatim>\<open>None\<close> and \<^verbatim>\<open>extract_channels\<close> returns the empty
  list; and when moreover the icon index is built (no \<^verbatim>\<open>urljoin\<close> raises), both output paths
  can be written and the clock readings can be encoded, the run completes with both files
  holding the header only.
\<close>

theorem run_survives_fetch_failure:
  assumes fail: "(\<exists>e. http_get w (base_url @ ascii ''/sctvmulticast.html'') = Inl e) \<or>
      (\<exists>resp. http_get w (base_url @ ascii ''/sctvmulticast.html'') = Inr resp \<and>
         400 \<le> status_code resp \<and> status_code resp < 600)"
    and icons: "build_icons_map w base_url (load_icons w base_url) = Inr icons_map"
    and w1: "writable w output_with_lan"
    and w2: "writable w output_native_rtp"
    and t0: "utf8_encodable (now_rfc3339 w 0)"
    and t1: "utf8_encodable (now_rfc3339 w 1)"
  shows "fetch w (base_url @ ascii ''/sctvmulticast.html'') = None \<and>
     extract_channels w base_url = [] \<and>
     run w base_url fs output_with_lan output_native_rtp =
       (fs(output_with_lan \<mapsto> m3u_header (now_rfc3339 w 0),
           output_native_rtp \<mapsto> m3u_header (now_rfc3339 w 1)), None)"
proof -
  from fail have f: "fetch w (base_url @ ascii ''/sctvmulticast.html'') = None"
    by (rule fetch_fails)
  then have e: "extract_channels w base_url = []"
    by (simp add: extract_channels_def)
  have "run w base_url fs output_with_lan output_native_rtp =
       (fs(output_with_lan \<mapsto> m3u_header (now_rfc3339 w 0),
           output_native_rtp \<mapsto> m3u_header (now_rfc3339 w 1)), None)"
    by (simp add: run_def e icons Let_def write_header_only [OF w1 t0]
        write_header_only [OF w2 t1] del: One_nat_def)
  with f e show ?thesis by simp
qed

theorem run_survives_fetch_failure_witness:
  "run example_world (ascii ''http://icons'') Map.empty
      (ascii ''./m3u8/chengdu_with_lan.m3u8'') (ascii ''./m3u8/chengdu_native_rtp.m3u8'') =
    ([ascii ''./m3u8/chengdu_with_lan.m3u8'' \<mapsto> m3u_header example_time,
      ascii ''./m3u8/chengdu_native_rtp.m3u8'' \<mapsto> m3u_header example_time], None)"
proof -
  let ?url = "ascii ''http://icons'' @ ascii ''/sctvmulticast.html''"
  have "http_get example_world ?url = Inl Timeout"
    by (simp add: example_world_def ascii_def)
  then have 1: "(\<exists>e. http_get example_world ?url = Inl e) \<or>
      (\<exists>resp. http_get example_world ?url = Inr resp \<and>
         400 \<le> status_code resp \<and> status_code resp < 600)"
    by blast
  have 2: "writable example_world p" for p
    by simp
  have 3: "utf8_encodable (now_rfc3339 example_world n)" for n
    by (simp add: example_time_def)
  from run_survives_fetch_failure [OF 1 example_icons_built 2 2 3 3]
  show ?thesis by simp
qed

text \<open>
  The claim as stated fails in two ways. A status outside 400 to 599 that is no success
  either, such as 300, is not a failure for \<^verbatim>\<open>fetch\<close>: the body is returned and its channel
  rows are extracted. And with the channel page timing out, an icon page holding an
  accepted row whose link is \<^verbatim>\<open>//[\<close> makes \<^verbatim>\<open>build_icons_map\<close> raise \<^verbatim>\<open>ValueError\<close>: the run
  aborts and writes no file.
\<close>

theorem run_aborts_counterexample:
  "http_get example_world (ascii ''http://moved'' @ ascii ''/sctvmulticast.html'') =
     Inr \<lparr>status_code = 300, content = [0x3F]\<rparr> \<and>
   extract_channels example_world (ascii ''http://moved'') =
     [\<lparr>chan_id = ascii ''1'', chan_name = ascii ''CCTV1'',
       chan_address = ascii ''239.1.1.1:5000''\<rparr>] \<and>
   http_get example_world (ascii ''http://badicons'' @ ascii ''/sctvmulticast.html'') =
     Inl Timeout \<and>
   run example_world (ascii ''http://badicons'') Map.empty
      (ascii ''./m3u8/chengdu_with_lan.m3u8'') (ascii ''./m3u8/chengdu_native_rtp.m3u8'') =
     (Map.empty, Some ValueError)"
  by (simp add: run_def extract_channels_def load_icons_def build_icons_map_def fetch_def
      fetch_try_def raise_for_status_def example_world_def example_channel_table_def
      broken_icon_table_def header_marker_def cell_def link_cell_def ascii_def Let_def)

section \<open>The icon index\<close>






lemma build_icons_loop_raises:
  "\<exists>item \<in> set items. urljoin w base_url (icon_href item) = None \<Longrightarrow>
   build_icons_loop w base_url m items = Inl ValueError"
  by (induction items arbitrary: m) (auto split: option.splits)





end
